theory Spec2Isabelle
  imports Main
begin

section \<open>JavaScript values read by the client\<close>

text \<open>
  The values of parsed JSON. The numbers of this model are the integers: instants are
  milliseconds since the epoch, as \<^verbatim>\<open>Date.now()\<close> and \<^verbatim>\<open>Date.getTime()\<close> give
  them, and lifetimes are whole seconds. A value that may be \<^verbatim>\<open>undefined\<close> is an
  \<open>option\<close>, with \<open>None\<close> for \<^verbatim>\<open>undefined\<close>.
\<close>

datatype json =
    JNull
  | JBool bool
  | JNum int
  | JStr string
  | JArr "json list"
  | JObj "(string \<times> json) list"

text \<open>
  Truthiness, as \<^verbatim>\<open>!x\<close>, \<^verbatim>\<open>x || y\<close>, \<^verbatim>\<open>x ? a : b\<close> and
  \<^verbatim>\<open>if (x)\<close> test it: \<^verbatim>\<open>undefined\<close>, \<^verbatim>\<open>null\<close>, \<^verbatim>\<open>false\<close>,
  \<^verbatim>\<open>0\<close> and the empty string are falsy, every other value is truthy.
\<close>

definition truthy :: "json option \<Rightarrow> bool" where
  "truthy v =
     (case v of
        None \<Rightarrow> False
      | Some JNull \<Rightarrow> False
      | Some (JBool b) \<Rightarrow> b
      | Some (JNum n) \<Rightarrow> n \<noteq> 0
      | Some (JStr s) \<Rightarrow> s \<noteq> []
      | Some (JArr xs) \<Rightarrow> True
      | Some (JObj kvs) \<Rightarrow> True)"

text \<open>The same test on a property typed \<^verbatim>\<open>string\<close> that may be missing.\<close>

definition truthy_string :: "string option \<Rightarrow> bool" where
  "truthy_string v = (case v of None \<Rightarrow> False | Some s \<Rightarrow> s \<noteq> [])"

text \<open>\<^verbatim>\<open>x || d\<close>: the left operand when it is truthy, the right one otherwise.\<close>

definition js_or :: "json option \<Rightarrow> json \<Rightarrow> json" where
  "js_or x d = (case x of None \<Rightarrow> d | Some v \<Rightarrow> if truthy (Some v) then v else d)"

section \<open>Errors\<close>

text \<open>
  \<^verbatim>\<open>class SintezySDKError extends Error\<close>. \<open>message\<close> is the property that
  \<^verbatim>\<open>super(message)\<close> sets: always a string, held as a JSON string. \<open>statusCode\<close>
  and \<open>code\<close> are the constructor's arguments as they are.
\<close>

record SintezySDKError =
  message :: json
  statusCode :: "nat option"
  code :: "json option"

text \<open>
  What a call of the client can throw: its own error class; the rejection of
  \<^verbatim>\<open>fetch\<close>; the rejection of \<^verbatim>\<open>response.json()\<close>; the TypeError of reading a
  property of \<^verbatim>\<open>null\<close>; the TypeError of converting to a string an object that
  has no callable \<^verbatim>\<open>toString\<close>.

  \<open>Unmodelled\<close> is not an error of the code. It marks the inputs on which this model
  does not follow the code, because the code goes on with a value the model cannot
  hold: a token whose fields are not of the types \<^verbatim>\<open>interface AuthToken\<close> gives
  them, or the decimal form of a number beyond the integers that JavaScript
  represents exactly. Where a result carries this marker, the model does not say which
  value the code produces.
\<close>

datatype error =
    SDKError SintezySDKError
  | FetchRejected
  | JsonRejected
  | NullProperty
  | NotPrimitive
  | Unmodelled

text \<open>
  \<^verbatim>\<open>v.key\<close> on a parsed JSON value, for the keys this client reads (\<open>message\<close>,
  \<open>code\<close>, \<open>access_token\<close>, \<open>expires_in\<close>, \<open>token_type\<close>), which no prototype
  defines: the own property of an object (keys of a parsed object are distinct),
  \<^verbatim>\<open>undefined\<close> on any other value, and a TypeError on \<^verbatim>\<open>null\<close>.
\<close>

definition get_prop :: "json \<Rightarrow> string \<Rightarrow> error + json option" where
  "get_prop v key =
     (case v of
        JNull \<Rightarrow> Inl NullProperty
      | JObj kvs \<Rightarrow> Inr (map_of kvs key)
      | JBool b \<Rightarrow> Inr None
      | JNum n \<Rightarrow> Inr None
      | JStr s \<Rightarrow> Inr None
      | JArr xs \<Rightarrow> Inr None)"

subsection \<open>Conversion to a string\<close>

text \<open>The decimal digits of a natural number.\<close>

definition digit :: "nat \<Rightarrow> char" where
  "digit d = ''0123456789'' ! d"

function decimal :: "nat \<Rightarrow> string" where
  "decimal n = (if n < 10 then [digit n] else decimal (n div 10) @ [digit (n mod 10)])"
  by pat_completeness auto
termination
  by (relation "measure (\<lambda>n. n)") auto

declare decimal.simps [simp del]

text \<open>
  \<^verbatim>\<open>Number.prototype.toString\<close> on an integer that JavaScript represents exactly
  (magnitude at most \<open>2\<^sup>5\<^sup>3\<close>): the digits, after a minus sign for a negative one.
\<close>

definition Number_toString :: "int \<Rightarrow> string" where
  "Number_toString n = (if n < 0 then ''-'' @ decimal (nat (- n)) else decimal (nat n))"

text \<open>\<^verbatim>\<open>Array.prototype.join\<close> with the separator \<open>,\<close>, stopping at the first element
  whose conversion throws.\<close>

fun join :: "(error + string) list \<Rightarrow> error + string" where
  "join [] = Inr []"
| "join [x] = x"
| "join (x # y # ys) =
     (case x of
        Inl e \<Rightarrow> Inl e
      | Inr s \<Rightarrow> (case join (y # ys) of Inl e \<Rightarrow> Inl e | Inr t \<Rightarrow> Inr (s @ '','' @ t)))"

text \<open>
  The abstract operation ToString of ECMAScript on a parsed JSON value. An array is
  joined, with \<^verbatim>\<open>null\<close> elements as empty strings. An object is
  \<^verbatim>\<open>[object Object]\<close> unless it has an own property \<open>toString\<close>: a parsed value
  is never callable, so neither that property nor \<^verbatim>\<open>valueOf\<close> yields a primitive
  and the conversion throws a TypeError.
\<close>

fun ToString :: "json \<Rightarrow> error + string" where
  "ToString JNull = Inr ''null''"
| "ToString (JBool b) = Inr (if b then ''true'' else ''false'')"
| "ToString (JNum n) =
     (if \<bar>n\<bar> \<le> 9007199254740992 then Inr (Number_toString n) else Inl Unmodelled)"
| "ToString (JStr s) = Inr s"
| "ToString (JArr xs) = join (map (\<lambda>x. if x = JNull then Inr [] else ToString x) xs)"
| "ToString (JObj kvs) =
     (if map_of kvs ''toString'' = None then Inr ''[object Object]'' else Inl NotPrimitive)"

text \<open>
  \<^verbatim>\<open>throw new SintezySDKError(message, statusCode, code)\<close>: \<^verbatim>\<open>super(message)\<close>
  converts the message to a string before the other two properties are set, so what is
  thrown is the new error, or the error of that conversion.
\<close>

definition throw_SintezySDKError :: "json \<Rightarrow> nat option \<Rightarrow> json option \<Rightarrow> error" where
  "throw_SintezySDKError msg st cd =
     (case ToString msg of
        Inl e \<Rightarrow> e
      | Inr s \<Rightarrow> SDKError \<lparr>message = JStr s, statusCode = st, code = cd\<rparr>)"

section \<open>The network and the clock\<close>

text \<open>
  A request as \<^verbatim>\<open>fetch(url, {method, headers, body})\<close> receives it, the property
  \<^verbatim>\<open>method\<close> under the name \<open>http_method\<close>. \<open>body\<close> is the value given to
  \<^verbatim>\<open>JSON.stringify\<close>, \<open>None\<close> when no body is sent.
\<close>

record http_request =
  url :: string
  http_method :: string
  headers :: "(string \<times> string) list"
  body :: "json option"

text \<open>
  A response: its status, and what \<^verbatim>\<open>response.json()\<close> resolves to, \<open>None\<close> when
  it rejects (no body, or not JSON).
\<close>

record response =
  status :: nat
  json_body :: "json option"

text \<open>\<^verbatim>\<open>response.ok\<close>: the status is in the range 200 to 299.\<close>

definition ok :: "response \<Rightarrow> bool" where
  "ok r = (200 \<le> status r \<and> status r \<le> 299)"

text \<open>
  The three properties \<open>authenticate\<close> reads from the body of a successful answer, when
  they have the types \<^verbatim>\<open>interface AuthToken\<close> gives the fields they are copied to:
  a string, a number (here a whole number of seconds) and a string.
\<close>

record token_response =
  access_token :: string
  expires_in :: int
  token_type :: string

definition token_fields :: "json \<Rightarrow> token_response option" where
  "token_fields data =
     (case data of
        JObj kvs \<Rightarrow>
          (case (map_of kvs ''access_token'', map_of kvs ''expires_in'',
                 map_of kvs ''token_type'') of
             (Some (JStr a), Some (JNum n), Some (JStr t)) \<Rightarrow>
               Some \<lparr>access_token = a, expires_in = n, token_type = t\<rparr>
           | _ \<Rightarrow> None)
      | _ \<Rightarrow> None)"

text \<open>The body of a response read in this way: \<open>Some\<close> exactly when
  \<^verbatim>\<open>response.json()\<close> resolves to an object with the three fields at these types.\<close>

definition token_body :: "response \<Rightarrow> token_response option" where
  "token_body r = (case json_body r of None \<Rightarrow> None | Some data \<Rightarrow> token_fields data)"

datatype fetch_result = Rejected | Resolved response

text \<open>
  The remote platform: for the requests issued so far and the next one, the outcome
  of \<^verbatim>\<open>fetch\<close> and the milliseconds that pass until the caller resumes.
\<close>

type_synonym server = "http_request list \<Rightarrow> http_request \<Rightarrow> fetch_result \<times> nat"

text \<open>What lies outside the client: the wall clock and the requests issued so far.\<close>

record world =
  clock :: int
  calls :: "http_request list"

definition fetch :: "server \<Rightarrow> http_request \<Rightarrow> world \<Rightarrow> fetch_result \<times> world" where
  "fetch srv rq w =
     (case srv (calls w) rq of
        (res, dt) \<Rightarrow> (res, \<lparr>clock = clock w + int dt, calls = calls w @ [rq]\<rparr>))"


section \<open>Types of the SDK\<close>

datatype environment = Production | Sandbox

text \<open>
  An optional property of the object literal given to the constructor: left out,
  written with the value \<^verbatim>\<open>undefined\<close>, or given. Object spread copies a property
  that is written, whatever its value, and skips one that is left out.
\<close>

datatype 'a property = Absent | Undefined | Value 'a

text \<open>
  \<^verbatim>\<open>interface SintezySDKConfig\<close>. For the three string properties the code only
  tests truthiness and reads the value, so \<open>None\<close> stands for a property left out or
  \<^verbatim>\<open>undefined\<close>.
\<close>

record SintezySDKConfig =
  clientId :: "string option"
  clientSecret :: "string option"
  environment :: "environment property"
  baseUrl :: "string option"

text \<open>
  \<^verbatim>\<open>interface AuthToken\<close>, at its declared types. \<open>expiresAt\<close> is the time value of
  the \<^verbatim>\<open>Date\<close>. The model keeps the instant \<open>authenticate\<close> computes as it is: an
  invalid date has no counterpart here, and what is stated about \<open>expiresAt\<close> after
  \<open>authenticate\<close> is stated for instants that are time values.
\<close>

record AuthToken =
  accessToken :: string
  expiresIn :: int
  tokenType :: string
  expiresAt :: int

text \<open>The two private fields of \<^verbatim>\<open>class SintezySDK\<close>; \<open>None\<close> is \<^verbatim>\<open>null\<close>.\<close>

record SintezySDK =
  config :: SintezySDKConfig
  token :: "AuthToken option"

section \<open>The client\<close>

text \<open>
  The constructor: \<^verbatim>\<open>{environment: 'production', ...config}\<close> keeps every property
  the caller wrote and fills in \<open>environment\<close> only when it was left out.
\<close>

definition "constructor" :: "SintezySDKConfig \<Rightarrow> error + SintezySDK" where
  "constructor cfg =
     (if \<not> truthy_string (clientId cfg) \<or> \<not> truthy_string (clientSecret cfg)
      then Inl (throw_SintezySDKError (JStr ''clientId and clientSecret are required'')
                  None None)
      else Inr \<lparr>config = cfg\<lparr>environment :=
                             (case environment cfg of
                                Absent \<Rightarrow> Value Production
                              | Undefined \<Rightarrow> Undefined
                              | Value e \<Rightarrow> Value e)\<rparr>,
                token = None\<rparr>)"

text \<open>
  \<^verbatim>\<open>if (this.config.baseUrl) return this.config.baseUrl\<close>: the test is truthiness, so
  the value returned is a non-empty string (the \<open>None\<close> branch of the inner
  \<open>case\<close> is never taken).
\<close>

definition getBaseUrl :: "SintezySDK \<Rightarrow> string" where
  "getBaseUrl c =
     (if truthy_string (baseUrl (config c))
      then (case baseUrl (config c) of Some u \<Rightarrow> u | None \<Rightarrow> [])
      else if environment (config c) = Value Production
           then ''https://api.sintezy.com''
           else ''https://sandbox-api.sintezy.com'')"

text \<open>
  The request \<open>authenticate\<close> sends. \<^verbatim>\<open>JSON.stringify\<close> leaves out a property whose
  value is \<^verbatim>\<open>undefined\<close>.
\<close>

definition json_field :: "string \<Rightarrow> string option \<Rightarrow> (string \<times> json) list" where
  "json_field key v = (case v of None \<Rightarrow> [] | Some s \<Rightarrow> [(key, JStr s)])"

definition token_request :: "SintezySDK \<Rightarrow> http_request" where
  "token_request c =
     \<lparr>url = getBaseUrl c @ ''/oauth/token'',
      http_method = ''POST'',
      headers = [(''Content-Type'', ''application/json'')],
      body = Some (JObj ([(''grant_type'', JStr ''client_credentials'')]
                         @ json_field ''client_id'' (clientId (config c))
                         @ json_field ''client_secret'' (clientSecret (config c))))\<rparr>"

text \<open>\<^verbatim>\<open>await response.json().catch(() => ({}))\<close>\<close>

definition error_body :: "response \<Rightarrow> json" where
  "error_body r = (case json_body r of None \<Rightarrow> JObj [] | Some j \<Rightarrow> j)"

text \<open>
  \<open>authenticate\<close>. On a successful answer the code has no check of the body's shape:
  \<^verbatim>\<open>response.json()\<close> may reject, reading a property of \<^verbatim>\<open>null\<close> throws, and
  any other body is copied field by field into the token. The model follows it for a
  body whose three fields have their declared types, and is \<open>Unmodelled\<close> for any other
  body that is not \<^verbatim>\<open>null\<close>.
\<close>

definition authenticate ::
  "server \<Rightarrow> SintezySDK \<Rightarrow> world \<Rightarrow> (error + AuthToken) \<times> SintezySDK \<times> world" where
  "authenticate srv c w =
     (case fetch srv (token_request c) w of
        (Rejected, w') \<Rightarrow> (Inl FetchRejected, c, w')
      | (Resolved r, w') \<Rightarrow>
          if \<not> ok r then
            (case get_prop (error_body r) ''message'' of
               Inl e \<Rightarrow> (Inl e, c, w')
             | Inr m \<Rightarrow>
                 (Inl (throw_SintezySDKError (js_or m (JStr ''Authentication failed''))
                         (Some (status r)) (Some (JStr ''AUTH_FAILED''))), c, w'))
          else
            (case json_body r of
               None \<Rightarrow> (Inl JsonRejected, c, w')
             | Some data \<Rightarrow>
                 (case get_prop data ''access_token'' of
                    Inl e \<Rightarrow> (Inl e, c, w')
                  | Inr a \<Rightarrow>
                      (case token_fields data of
                         None \<Rightarrow> (Inl Unmodelled, c, w')
                       | Some d \<Rightarrow>
                           (let t = \<lparr>accessToken = access_token d,
                                     expiresIn = expires_in d,
                                     tokenType = token_type d,
                                     expiresAt = clock w' + expires_in d * 1000\<rparr>
                            in (Inr t, c\<lparr>token := Some t\<rparr>, w'))))))"

text \<open>\<open>now\<close> is the reading of \<^verbatim>\<open>Date.now()\<close>.\<close>

definition isAuthenticated :: "SintezySDK \<Rightarrow> int \<Rightarrow> bool" where
  "isAuthenticated c now =
     (case token c of None \<Rightarrow> False | Some t \<Rightarrow> expiresAt t > now + 60000)"

definition getToken :: "SintezySDK \<Rightarrow> AuthToken option" where
  "getToken c = token c"

text \<open>
  \<^verbatim>\<open>return this.token!\<close> returns the field as it is: the \<^verbatim>\<open>!\<close> is erased by the
  compiler. The result is therefore the optional token.
\<close>

definition ensureAuthenticated ::
  "server \<Rightarrow> SintezySDK \<Rightarrow> world \<Rightarrow> (error + AuthToken option) \<times> SintezySDK \<times> world" where
  "ensureAuthenticated srv c w =
     (if \<not> isAuthenticated c (clock w)
      then (case authenticate srv c w of (r, c', w') \<Rightarrow> (map_sum id Some r, c', w'))
      else (Inr (token c), c, w))"

text \<open>
  The request an authenticated call sends, with the parameters \<open>method\<close>, \<open>path\<close> and
  \<open>body\<close> of \<^verbatim>\<open>request\<close> named \<open>meth\<close>, \<open>path\<close> and \<open>payload\<close>.
  \<^verbatim>\<open>body ? JSON.stringify(body) : undefined\<close> sends no body for a falsy one.
\<close>

definition api_request ::
  "SintezySDK \<Rightarrow> AuthToken \<Rightarrow> string \<Rightarrow> string \<Rightarrow> json option \<Rightarrow> http_request" where
  "api_request c t meth path payload =
     \<lparr>url = getBaseUrl c @ path,
      http_method = meth,
      headers = [(''Content-Type'', ''application/json''),
                 (''Authorization'', ''Bearer '' @ accessToken t)],
      body = (if truthy payload then payload else None)\<rparr>"

text \<open>
  The authenticated call \<^verbatim>\<open>request(method, path, body)\<close>. Reading
  \<^verbatim>\<open>this.token!.accessToken\<close> while the field is \<^verbatim>\<open>null\<close> would throw a
  TypeError before \<^verbatim>\<open>fetch\<close> is called. The arguments of the error are evaluated
  in their order, \<^verbatim>\<open>error.message\<close> before \<^verbatim>\<open>error.code\<close>, and the error is
  constructed after them.
\<close>

definition request ::
  "server \<Rightarrow> SintezySDK \<Rightarrow> world \<Rightarrow> string \<Rightarrow> string \<Rightarrow> json option
     \<Rightarrow> (error + json) \<times> SintezySDK \<times> world" where
  "request srv c w meth path payload =
     (case ensureAuthenticated srv c w of
        (Inl e, c1, w1) \<Rightarrow> (Inl e, c1, w1)
      | (Inr held, c1, w1) \<Rightarrow>
          (case token c1 of
             None \<Rightarrow> (Inl NullProperty, c1, w1)
           | Some t \<Rightarrow>
               (case fetch srv (api_request c1 t meth path payload) w1 of
                  (Rejected, w2) \<Rightarrow> (Inl FetchRejected, c1, w2)
                | (Resolved r, w2) \<Rightarrow>
                    if \<not> ok r then
                      (case get_prop (error_body r) ''message'' of
                         Inl e \<Rightarrow> (Inl e, c1, w2)
                       | Inr m \<Rightarrow>
                           (case get_prop (error_body r) ''code'' of
                              Inl e \<Rightarrow> (Inl e, c1, w2)
                            | Inr cd \<Rightarrow>
                                (Inl (throw_SintezySDKError
                                        (js_or m (JStr (''Request failed: '' @ meth
                                                        @ '' '' @ path)))
                                        (Some (status r)) cd), c1, w2)))
                    else
                      (case json_body r of
                         None \<Rightarrow> (Inl JsonRejected, c1, w2)
                       | Some j \<Rightarrow> (Inr j, c1, w2)))))"

text \<open>\<open>params\<close> is the object the caller passes, handed on as the body.\<close>

definition createAppointment ::
  "server \<Rightarrow> SintezySDK \<Rightarrow> world \<Rightarrow> json \<Rightarrow> (error + json) \<times> SintezySDK \<times> world" where
  "createAppointment srv c w params = request srv c w ''POST'' ''/sdk/appointments'' (Some params)"

section \<open>A scripted platform\<close>

text \<open>
  The scenario of the specification's end-to-end property: a client built from
  credentials alone, a token endpoint that grants \<open>abc\<close> for 3600 seconds after 120
  milliseconds, and an appointment endpoint that answers with one appointment. Any
  other request is answered 404.
\<close>

definition sample_config :: SintezySDKConfig where
  "sample_config =
     \<lparr>clientId = Some ''id'', clientSecret = Some ''secret'',
      environment = Absent, baseUrl = None\<rparr>"

definition sample_client :: SintezySDK where
  "sample_client =
     \<lparr>config = \<lparr>clientId = Some ''id'', clientSecret = Some ''secret'',
                environment = Value Production, baseUrl = None\<rparr>,
      token = None\<rparr>"

definition sample_world :: world where
  "sample_world = \<lparr>clock = 1700000000000, calls = []\<rparr>"

definition sample_grant :: token_response where
  "sample_grant = \<lparr>access_token = ''abc'', expires_in = 3600, token_type = ''Bearer''\<rparr>"

definition sample_token :: AuthToken where
  "sample_token =
     \<lparr>accessToken = ''abc'', expiresIn = 3600, tokenType = ''Bearer'',
      expiresAt = 1700003600120\<rparr>"

definition sample_appointment :: json where
  "sample_appointment =
     JObj [(''id'', JStr ''a1''), (''secureId'', JStr ''s1''), (''userId'', JStr ''u1''),
           (''status'', JStr ''pending''), (''createdAt'', JStr ''2024-01-01T00:00:00Z'')]"

definition sample_params :: json where
  "sample_params = JObj [(''userEmail'', JStr ''d@x.com'')]"

definition not_found :: response where
  "not_found =
     \<lparr>status = 404,
      json_body = Some (JObj [(''message'', JStr ''not found''), (''code'', JStr ''NOT_FOUND'')])\<rparr>"

definition granted :: response where
  "granted =
     \<lparr>status = 200,
      json_body = Some (JObj [(''access_token'', JStr ''abc''), (''expires_in'', JNum 3600),
                              (''token_type'', JStr ''Bearer'')])\<rparr>"

definition sample_server :: server where
  "sample_server history rq =
     (if http_method rq = ''POST'' \<and> url rq = ''https://api.sintezy.com/oauth/token''
      then (Resolved granted, 120)
      else if http_method rq = ''POST'' \<and> url rq = ''https://api.sintezy.com/sdk/appointments''
      then (Resolved \<lparr>status = 200, json_body = Some sample_appointment\<rparr>, 80)
      else (Resolved not_found, 5))"

text \<open>
  A platform that refuses the credentials with a message and a code of its own, and
  two whose error bodies carry an empty message: one at every endpoint but the token
  endpoint, one at every endpoint.
\<close>

definition refused :: response where
  "refused =
     \<lparr>status = 401,
      json_body = Some (JObj [(''message'', JStr ''bad credentials''),
                              (''code'', JStr ''invalid_client'')])\<rparr>"

definition refusing_server :: server where
  "refusing_server history rq = (Resolved refused, 30)"

definition blank_message :: response where
  "blank_message = \<lparr>status = 500, json_body = Some (JObj [(''message'', JStr [])])\<rparr>"

definition blank_server :: server where
  "blank_server history rq =
     (if http_method rq = ''POST'' \<and> url rq = ''https://api.sintezy.com/oauth/token''
      then (Resolved granted, 120)
      else (Resolved blank_message, 5))"

definition blank_refusing_server :: server where
  "blank_refusing_server history rq = (Resolved blank_message, 5)"

text \<open>
  Clients of the scenario: one that holds the token granted there, one whose token
  expired long before the sample instant, one whose token expires exactly 60 seconds
  after it. Two configurations: one whose base URL is the empty string, one that
  writes the environment out with the value \<^verbatim>\<open>undefined\<close>.
\<close>

definition holding_client :: SintezySDK where
  "holding_client = sample_client\<lparr>token := Some sample_token\<rparr>"

definition stale_client :: SintezySDK where
  "stale_client =
     sample_client\<lparr>token := Some \<lparr>accessToken = ''old'', expiresIn = 3600,
                                     tokenType = ''Bearer'', expiresAt = 1699990000000\<rparr>\<rparr>"

definition margin_client :: SintezySDK where
  "margin_client =
     sample_client\<lparr>token := Some \<lparr>accessToken = ''old'', expiresIn = 3600,
                                     tokenType = ''Bearer'', expiresAt = 1700000060000\<rparr>\<rparr>"

definition empty_base_config :: SintezySDKConfig where
  "empty_base_config =
     \<lparr>clientId = Some ''id'', clientSecret = Some ''secret'',
      environment = Value Sandbox, baseUrl = Some []\<rparr>"

definition undefined_environment_config :: SintezySDKConfig where
  "undefined_environment_config =
     \<lparr>clientId = Some ''id'', clientSecret = Some ''secret'',
      environment = Undefined, baseUrl = None\<rparr>"

section \<open>Facts about single steps\<close>

lemma fetch_calls:
  "fetch srv rq w = (res, w') \<Longrightarrow> calls w' = calls w @ [rq]"
  by (auto simp: fetch_def split: prod.splits)

lemma token_fields_object:
  "token_fields data = Some d \<Longrightarrow> \<exists>kvs. data = JObj kvs"
  by (cases data) (simp_all add: token_fields_def)

lemma token_body_data:
  assumes "token_body r = Some d"
  shows "\<exists>kvs. json_body r = Some (JObj kvs) \<and> token_fields (JObj kvs) = Some d"
proof -
  from assms obtain data where "json_body r = Some data" and "token_fields data = Some d"
    by (auto simp: token_body_def split: option.splits)
  then show ?thesis
    using token_fields_object by blast
qed

lemma throw_string:
  "throw_SintezySDKError (JStr s) st cd = SDKError \<lparr>message = JStr s, statusCode = st, code = cd\<rparr>"
  by (simp add: throw_SintezySDKError_def)

lemma authenticate_state:
  assumes "authenticate srv c w = (res, c', w')"
  shows "calls w' = calls w @ [token_request c]
     \<and> (case res of
          Inl e \<Rightarrow> c' = c
        | Inr tk \<Rightarrow> c' = c\<lparr>token := Some tk\<rparr>
                     \<and> expiresAt tk = clock w' + expiresIn tk * 1000)"
proof -
  obtain fr w1 where f: "fetch srv (token_request c) w = (fr, w1)"
    by (cases "fetch srv (token_request c) w") auto
  then have sent: "calls w1 = calls w @ [token_request c]"
    by (rule fetch_calls)
  show ?thesis
  proof (cases fr)
    case Rejected
    with assms f sent show ?thesis
      by (auto simp: authenticate_def)
  next
    case (Resolved r)
    show ?thesis
    proof (cases "ok r")
      case False
      with assms f Resolved sent show ?thesis
        by (auto simp: authenticate_def split: sum.splits)
    next
      case True
      with assms f Resolved sent show ?thesis
        by (auto simp: authenticate_def Let_def split: option.splits sum.splits)
    qed
  qed
qed

lemma authenticate_calls:
  "authenticate srv c w = (res, c', w') \<Longrightarrow> calls w' = calls w @ [token_request c]"
  using authenticate_state [of srv c w res c' w'] by simp

lemma authenticate_token:
  "authenticate srv c w = (Inr tk, c', w') \<Longrightarrow> token c' = Some tk"
  using authenticate_state [of srv c w "Inr tk" c' w'] by simp

lemma authenticate_on_grant:
  assumes "srv (calls w) (token_request c) = (Resolved r, dt)"
    and "ok r"
    and "token_body r = Some d"
  shows "authenticate srv c w =
           (Inr \<lparr>accessToken = access_token d, expiresIn = expires_in d,
                 tokenType = token_type d,
                 expiresAt = clock w + int dt + expires_in d * 1000\<rparr>,
            c\<lparr>token := Some \<lparr>accessToken = access_token d, expiresIn = expires_in d,
                              tokenType = token_type d,
                              expiresAt = clock w + int dt + expires_in d * 1000\<rparr>\<rparr>,
            \<lparr>clock = clock w + int dt, calls = calls w @ [token_request c]\<rparr>)"
proof -
  from assms(3) obtain kvs where "json_body r = Some (JObj kvs)"
    and "token_fields (JObj kvs) = Some d"
    using token_body_data by blast
  with assms(1,2) show ?thesis
    by (simp add: authenticate_def fetch_def get_prop_def Let_def)
qed

lemma isAuthenticated_holds:
  "isAuthenticated c now \<Longrightarrow> \<exists>t. token c = Some t"
  by (simp add: isAuthenticated_def split: option.splits)

lemma ensureAuthenticated_token:
  assumes "ensureAuthenticated srv c w = (Inr held, c1, w1)"
  shows "\<exists>t. held = Some t \<and> token c1 = Some t"
proof (cases "isAuthenticated c (clock w)")
  case True
  with assms have "held = token c" and "c1 = c"
    by (auto simp: ensureAuthenticated_def)
  with True show ?thesis
    using isAuthenticated_holds by blast
next
  case False
  obtain r c' w' where a: "authenticate srv c w = (r, c', w')"
    by (cases "authenticate srv c w") auto
  with False assms have "map_sum id Some r = Inr held" and "c' = c1"
    by (auto simp: ensureAuthenticated_def)
  then obtain tk where "r = Inr tk" and "held = Some tk"
    by (cases r) auto
  with a \<open>c' = c1\<close> show ?thesis
    using authenticate_token by blast
qed

lemma request_after_guard:
  assumes "ensureAuthenticated srv c w = (Inr (Some t), c1, w1)"
    and "srv (calls w1) (api_request c1 t meth path payload) = (Resolved r, dt)"
  shows "request srv c w meth path payload =
           (let w2 = \<lparr>clock = clock w1 + int dt,
                      calls = calls w1 @ [api_request c1 t meth path payload]\<rparr>
            in if \<not> ok r then
                 (case get_prop (error_body r) ''message'' of
                    Inl e \<Rightarrow> (Inl e, c1, w2)
                  | Inr m \<Rightarrow>
                      (case get_prop (error_body r) ''code'' of
                         Inl e \<Rightarrow> (Inl e, c1, w2)
                       | Inr cd \<Rightarrow>
                           (Inl (throw_SintezySDKError
                                   (js_or m (JStr (''Request failed: '' @ meth
                                                   @ '' '' @ path)))
                                   (Some (status r)) cd), c1, w2)))
               else
                 (case json_body r of
                    None \<Rightarrow> (Inl JsonRejected, c1, w2)
                  | Some j \<Rightarrow> (Inr j, c1, w2)))"
proof -
  from assms(1) have "token c1 = Some t"
    using ensureAuthenticated_token by fastforce
  with assms show ?thesis
    by (simp add: request_def fetch_def Let_def)
qed

subsection \<open>The scripted platform, step by step\<close>

lemma token_request_sample:
  "token_request sample_client =
     \<lparr>url = ''https://api.sintezy.com/oauth/token'', http_method = ''POST'',
      headers = [(''Content-Type'', ''application/json'')],
      body = Some (JObj [(''grant_type'', JStr ''client_credentials''),
                         (''client_id'', JStr ''id''), (''client_secret'', JStr ''secret'')])\<rparr>"
  by (simp add: token_request_def getBaseUrl_def sample_client_def truthy_string_def json_field_def)

lemma token_request_config:
  "config c = config sample_client \<Longrightarrow> token_request c = token_request sample_client"
  by (simp add: token_request_def getBaseUrl_def)

lemma granted_grant: "ok granted" "token_body granted = Some sample_grant"
  by (simp_all add: granted_def ok_def token_body_def token_fields_def sample_grant_def)

lemma authenticate_granted:
  assumes "config c = config sample_client"
  shows "authenticate sample_server c sample_world =
     (Inr sample_token, c\<lparr>token := Some sample_token\<rparr>,
      \<lparr>clock = 1700000000120, calls = [token_request sample_client]\<rparr>)"
proof -
  have same: "token_request c = token_request sample_client"
    using assms by (rule token_request_config)
  have "sample_server (calls sample_world) (token_request c) = (Resolved granted, 120)"
    by (simp add: same token_request_sample sample_server_def)
  from authenticate_on_grant [of sample_server sample_world c granted 120 sample_grant]
    this granted_grant show ?thesis
    by (simp add: same sample_grant_def sample_token_def sample_world_def)
qed

lemma authenticate_refused:
  "authenticate refusing_server holding_client sample_world =
     (Inl (SDKError \<lparr>message = JStr ''bad credentials'', statusCode = Some 401,
                      code = Some (JStr ''AUTH_FAILED'')\<rparr>),
      holding_client,
      \<lparr>clock = 1700000000030, calls = [token_request sample_client]\<rparr>)"
proof -
  have "token_request holding_client = token_request sample_client"
    by (rule token_request_config) (simp add: holding_client_def)
  then show ?thesis
    by (simp add: authenticate_def fetch_def refusing_server_def refused_def ok_def
        error_body_def get_prop_def js_or_def truthy_def throw_string sample_world_def)
qed

lemma ensureAuthenticated_sample:
  "ensureAuthenticated sample_server sample_client sample_world =
     (Inr (Some sample_token), holding_client,
      \<lparr>clock = 1700000000120, calls = [token_request sample_client]\<rparr>)"
  using authenticate_granted [of sample_client]
  by (simp add: ensureAuthenticated_def isAuthenticated_def sample_client_def holding_client_def)

lemma ensureAuthenticated_blank:
  "ensureAuthenticated blank_server sample_client sample_world =
     (Inr (Some sample_token), holding_client,
      \<lparr>clock = 1700000000120, calls = [token_request sample_client]\<rparr>)"
proof -
  have "blank_server (calls sample_world) (token_request sample_client) = (Resolved granted, 120)"
    by (simp add: token_request_sample blank_server_def)
  from authenticate_on_grant [of blank_server sample_world sample_client granted 120 sample_grant]
    this granted_grant
  have "authenticate blank_server sample_client sample_world =
     (Inr sample_token, holding_client,
      \<lparr>clock = 1700000000120, calls = [token_request sample_client]\<rparr>)"
    by (simp add: sample_grant_def sample_token_def sample_world_def holding_client_def)
  then show ?thesis
    by (simp add: ensureAuthenticated_def isAuthenticated_def sample_client_def)
qed

lemma getBaseUrl_holding: "getBaseUrl holding_client = ''https://api.sintezy.com''"
  by (simp add: getBaseUrl_def holding_client_def sample_client_def truthy_string_def)

section \<open>The guard \<open>ensureAuthenticated\<close>\<close>

text \<open>
  Claim C1. In every client state, \<open>ensureAuthenticated\<close> issues no request and returns
  the token it holds when \<open>isAuthenticated\<close> is true: the client and the world, with its
  list of issued requests, come back unchanged. When \<open>isAuthenticated\<close> is false (no
  token, an expired one, or one within the 60-second margin) it runs \<open>authenticate\<close>
  once and returns its result, and exactly one request, the token request, is added to
  the issued ones.
\<close>

theorem ensureAuthenticated_guard:
  "(isAuthenticated c (clock w) \<longrightarrow>
      (\<exists>t. token c = Some t \<and> ensureAuthenticated srv c w = (Inr (Some t), c, w)))
   \<and> (\<not> isAuthenticated c (clock w) \<longrightarrow>
      (\<exists>r c' w'. authenticate srv c w = (r, c', w')
         \<and> ensureAuthenticated srv c w = (map_sum id Some r, c', w')
         \<and> calls w' = calls w @ [token_request c]))"
proof (cases "isAuthenticated c (clock w)")
  case True
  then obtain t where "token c = Some t"
    using isAuthenticated_holds by blast
  with True show ?thesis
    by (simp add: ensureAuthenticated_def)
next
  case False
  obtain r c' w' where a: "authenticate srv c w = (r, c', w')"
    by (cases "authenticate srv c w") auto
  then have "calls w' = calls w @ [token_request c]"
    by (rule authenticate_calls)
  with False a show ?thesis
    by (simp add: ensureAuthenticated_def)
qed

text \<open>
  The four client states of the scenario: a token with an hour left, no token, an
  expired token, and a token that expires exactly 60 seconds from now.
\<close>

theorem ensureAuthenticated_guard_witness:
  "isAuthenticated holding_client (clock sample_world)
   \<and> ensureAuthenticated sample_server holding_client sample_world =
       (Inr (Some sample_token), holding_client, sample_world)
   \<and> \<not> isAuthenticated sample_client (clock sample_world)
   \<and> ensureAuthenticated sample_server sample_client sample_world =
       (Inr (Some sample_token), holding_client,
        \<lparr>clock = 1700000000120, calls = [token_request sample_client]\<rparr>)
   \<and> \<not> isAuthenticated stale_client (clock sample_world)
   \<and> ensureAuthenticated sample_server stale_client sample_world =
       (Inr (Some sample_token), holding_client,
        \<lparr>clock = 1700000000120, calls = [token_request sample_client]\<rparr>)
   \<and> \<not> isAuthenticated margin_client (clock sample_world)
   \<and> ensureAuthenticated sample_server margin_client sample_world =
       (Inr (Some sample_token), holding_client,
        \<lparr>clock = 1700000000120, calls = [token_request sample_client]\<rparr>)"
proof -
  have same: "token_request stale_client = token_request sample_client"
    "token_request margin_client = token_request sample_client"
    by (rule token_request_config, simp add: stale_client_def margin_client_def)+
  have granted: "authenticate sample_server sample_client sample_world =
       (Inr sample_token, holding_client,
        \<lparr>clock = 1700000000120, calls = [token_request sample_client]\<rparr>)"
    "authenticate sample_server stale_client sample_world =
       (Inr sample_token, holding_client,
        \<lparr>clock = 1700000000120, calls = [token_request sample_client]\<rparr>)"
    "authenticate sample_server margin_client sample_world =
       (Inr sample_token, holding_client,
        \<lparr>clock = 1700000000120, calls = [token_request sample_client]\<rparr>)"
    using authenticate_granted [of sample_client] authenticate_granted [of stale_client]
      authenticate_granted [of margin_client]
    by (simp_all add: holding_client_def stale_client_def margin_client_def)
  have states: "isAuthenticated holding_client (clock sample_world)"
    "\<not> isAuthenticated sample_client (clock sample_world)"
    "\<not> isAuthenticated stale_client (clock sample_world)"
    "\<not> isAuthenticated margin_client (clock sample_world)"
    by (simp_all add: isAuthenticated_def holding_client_def stale_client_def margin_client_def
        sample_token_def sample_world_def sample_client_def)
  have held: "token holding_client = Some sample_token"
    by (simp add: holding_client_def)
  from ensureAuthenticated_guard [of holding_client sample_world sample_server]
    ensureAuthenticated_guard [of sample_client sample_world sample_server]
    ensureAuthenticated_guard [of stale_client sample_world sample_server]
    ensureAuthenticated_guard [of margin_client sample_world sample_server]
    states granted held
  show ?thesis
    by simp
qed

section \<open>The validity check \<open>isAuthenticated\<close>\<close>

text \<open>
  Claim C2. \<open>isAuthenticated\<close> is true exactly when a token is held and its \<open>expiresAt\<close>
  is strictly more than 60 seconds after the current time. After \<open>authenticate\<close> has
  succeeded with \<open>expires_in = 3600\<close>, reading the clock at \<open>T\<close>, the check is true at
  \<open>T\<close> + 3500 s and false at \<open>T\<close> + 3540 s and at \<open>T\<close> + 3541 s. The check reads the
  token and the clock and nothing else: it is a function of the client and the clock's
  reading to a truth value, so it issues no request and changes no state.
\<close>

theorem isAuthenticated_margin:
  "(isAuthenticated c now \<longleftrightarrow> (\<exists>t. token c = Some t \<and> now + 60000 < expiresAt t))
   \<and> (authenticate srv c w = (Inr tk, c', w') \<and> expiresIn tk = 3600 \<longrightarrow>
        expiresAt tk = clock w' + 3600000 \<and>
        isAuthenticated c' (clock w' + 3500000) \<and>
        \<not> isAuthenticated c' (clock w' + 3540000) \<and>
        \<not> isAuthenticated c' (clock w' + 3541000))"
proof (intro conjI impI)
  show "isAuthenticated c now \<longleftrightarrow> (\<exists>t. token c = Some t \<and> now + 60000 < expiresAt t)"
    by (auto simp: isAuthenticated_def split: option.splits)
next
  assume "authenticate srv c w = (Inr tk, c', w') \<and> expiresIn tk = 3600"
  with authenticate_state [of srv c w "Inr tk" c' w']
  have stored: "token c' = Some tk" and at: "expiresAt tk = clock w' + 3600000"
    by simp_all
  from at show "expiresAt tk = clock w' + 3600000" .
  from stored at show "isAuthenticated c' (clock w' + 3500000)"
    by (simp add: isAuthenticated_def)
  from stored at show "\<not> isAuthenticated c' (clock w' + 3540000)"
    by (simp add: isAuthenticated_def)
  from stored at show "\<not> isAuthenticated c' (clock w' + 3541000)"
    by (simp add: isAuthenticated_def)
qed

theorem isAuthenticated_margin_witness:
  "authenticate sample_server sample_client sample_world =
     (Inr sample_token, holding_client,
      \<lparr>clock = 1700000000120, calls = [token_request sample_client]\<rparr>)
   \<and> expiresIn sample_token = 3600
   \<and> isAuthenticated holding_client (1700000000120 + 3500000)
   \<and> \<not> isAuthenticated holding_client (1700000000120 + 3540000)
   \<and> \<not> isAuthenticated holding_client (1700000000120 + 3541000)"
  using isAuthenticated_margin [where c = sample_client and srv = sample_server
      and w = sample_world and tk = sample_token and c' = holding_client
      and w' = "\<lparr>clock = 1700000000120, calls = [token_request sample_client]\<rparr>"]
    authenticate_granted [of sample_client]
  by (simp add: sample_token_def holding_client_def)

section \<open>\<open>authenticate\<close>\<close>



text \<open>
  Claim C9. Whenever \<open>authenticate\<close> fails, the client is the one it was before the
  call: the token field holds what it held, nothing is discarded and nothing is
  installed. It does fail, with the client unchanged, when \<^verbatim>\<open>fetch\<close> rejects, when
  the status is not a success (whatever the body), and when the body of a successful
  answer cannot be processed because \<^verbatim>\<open>response.json()\<close> rejects or resolves to
  \<^verbatim>\<open>null\<close>.
\<close>

theorem authenticate_failure_keeps_token:
  "(\<forall>e c' w'. authenticate srv c w = (Inl e, c', w') \<and> e \<noteq> Unmodelled \<longrightarrow>
       c' = c \<and> token c' = token c \<and> getToken c' = getToken c)
   \<and> (srv (calls w) (token_request c) = (Rejected, dt) \<longrightarrow>
        (\<exists>w'. authenticate srv c w = (Inl FetchRejected, c, w')))
   \<and> (srv (calls w) (token_request c) = (Resolved r, dt) \<and> \<not> ok r \<longrightarrow>
        (\<exists>e w'. authenticate srv c w = (Inl e, c, w')))
   \<and> (srv (calls w) (token_request c) = (Resolved r, dt) \<and> ok r \<and> json_body r = None \<longrightarrow>
        (\<exists>w'. authenticate srv c w = (Inl JsonRejected, c, w')))
   \<and> (srv (calls w) (token_request c) = (Resolved r, dt) \<and> ok r
        \<and> json_body r = Some JNull \<longrightarrow>
        (\<exists>w'. authenticate srv c w = (Inl NullProperty, c, w')))"
proof -
  have kept: "\<forall>e c' w'. authenticate srv c w = (Inl e, c', w') \<and> e \<noteq> Unmodelled \<longrightarrow>
       c' = c \<and> token c' = token c \<and> getToken c' = getToken c"
  proof (intro allI impI)
    fix e c' w'
    assume "authenticate srv c w = (Inl e, c', w') \<and> e \<noteq> Unmodelled"
    with authenticate_state [of srv c w "Inl e" c' w']
    show "c' = c \<and> token c' = token c \<and> getToken c' = getToken c"
      by simp
  qed
  have rejected: "srv (calls w) (token_request c) = (Rejected, dt) \<longrightarrow>
        (\<exists>w'. authenticate srv c w = (Inl FetchRejected, c, w'))"
    by (simp add: authenticate_def fetch_def)
  have refused: "srv (calls w) (token_request c) = (Resolved r, dt) \<and> \<not> ok r \<longrightarrow>
        (\<exists>e w'. authenticate srv c w = (Inl e, c, w'))"
    by (simp add: authenticate_def fetch_def split: sum.splits)
  have unparsed: "srv (calls w) (token_request c) = (Resolved r, dt) \<and> ok r
        \<and> json_body r = None \<longrightarrow>
        (\<exists>w'. authenticate srv c w = (Inl JsonRejected, c, w'))"
    by (simp add: authenticate_def fetch_def)
  have null: "srv (calls w) (token_request c) = (Resolved r, dt) \<and> ok r
        \<and> json_body r = Some JNull \<longrightarrow>
        (\<exists>w'. authenticate srv c w = (Inl NullProperty, c, w'))"
    by (simp add: authenticate_def fetch_def get_prop_def)
  from kept rejected refused unparsed null show ?thesis
    by (intro conjI)
qed

text \<open>
  The token endpoint refuses a client that holds a token: the error is the SDK's own
  and the token is still held.
\<close>

theorem authenticate_failure_keeps_token_witness:
  "refusing_server (calls sample_world) (token_request holding_client) = (Resolved refused, 30)
   \<and> \<not> ok refused
   \<and> authenticate refusing_server holding_client sample_world =
     (Inl (SDKError \<lparr>message = JStr ''bad credentials'', statusCode = Some 401,
                      code = Some (JStr ''AUTH_FAILED'')\<rparr>),
      holding_client,
      \<lparr>clock = 1700000000030, calls = [token_request sample_client]\<rparr>)
   \<and> SDKError \<lparr>message = JStr ''bad credentials'', statusCode = Some 401,
                 code = Some (JStr ''AUTH_FAILED'')\<rparr> \<noteq> Unmodelled
   \<and> token holding_client = Some sample_token"
  using authenticate_failure_keeps_token [of refusing_server holding_client sample_world 30 refused]
    authenticate_refused
  by (simp add: holding_client_def refusing_server_def refused_def ok_def)

text \<open>
  Claim C4, as stated, fails: the error of \<open>authenticate\<close> never carries the server's
  error code. A token endpoint that answers 401 with the message \<open>bad credentials\<close> and
  the code \<open>invalid_client\<close> yields an error with that message, the status 401 and the
  code \<open>AUTH_FAILED\<close>.
\<close>

theorem authenticate_error_code_counterexample:
  "refusing_server (calls sample_world) (token_request sample_client) =
     (Resolved \<lparr>status = 401,
                 json_body = Some (JObj [(''message'', JStr ''bad credentials''),
                                         (''code'', JStr ''invalid_client'')])\<rparr>, 30)
   \<and> fst (authenticate refusing_server sample_client sample_world) =
       Inl (SDKError \<lparr>message = JStr ''bad credentials'', statusCode = Some 401,
                      code = Some (JStr ''AUTH_FAILED'')\<rparr>)
   \<and> JStr ''AUTH_FAILED'' \<noteq> JStr ''invalid_client''"
  by (simp add: authenticate_def fetch_def refusing_server_def refused_def ok_def error_body_def
      get_prop_def js_or_def truthy_def throw_string)

text \<open>
  Claim C4, amended. For every non-success answer of the token endpoint whose body is
  absent, unparseable, a JSON value that is neither \<^verbatim>\<open>null\<close> nor an object, or an
  object whose \<open>message\<close> is missing or a string, \<open>authenticate\<close> raises an error that
  carries the HTTP status and the fixed code \<open>AUTH_FAILED\<close>, whatever code the server
  sent. Its message is the server's message when that is a non-empty string, and
  \<open>Authentication failed\<close> in every other of these cases: no body, no object, no
  message, or an empty one. (A body that is \<^verbatim>\<open>null\<close> and a message that is not a
  string are left out: reading a property of \<^verbatim>\<open>null\<close> throws, and a message of
  another type is converted to a string, which can throw.)
\<close>

theorem authenticate_failure_error:
  assumes "srv (calls w) (token_request c) = (Resolved r, dt)"
    and "\<not> ok r"
  shows "(json_body r = None \<longrightarrow>
            fst (authenticate srv c w) =
              Inl (SDKError \<lparr>message = JStr ''Authentication failed'',
                             statusCode = Some (status r),
                             code = Some (JStr ''AUTH_FAILED'')\<rparr>))
       \<and> (\<forall>j. json_body r = Some j \<and> j \<noteq> JNull \<and> (\<forall>kvs. j \<noteq> JObj kvs) \<longrightarrow>
            fst (authenticate srv c w) =
              Inl (SDKError \<lparr>message = JStr ''Authentication failed'',
                             statusCode = Some (status r),
                             code = Some (JStr ''AUTH_FAILED'')\<rparr>))
       \<and> (\<forall>kvs. json_body r = Some (JObj kvs)
              \<and> (map_of kvs ''message'' = None \<or> (\<exists>s. map_of kvs ''message'' = Some (JStr s)))
            \<longrightarrow>
            (\<exists>e. fst (authenticate srv c w) = Inl (SDKError e)
               \<and> statusCode e = Some (status r)
               \<and> code e = Some (JStr ''AUTH_FAILED'')
               \<and> (\<forall>s. map_of kvs ''message'' = Some (JStr s) \<and> s \<noteq> [] \<longrightarrow> message e = JStr s)
               \<and> (map_of kvs ''message'' = None \<or> map_of kvs ''message'' = Some (JStr [])
                    \<longrightarrow> message e = JStr ''Authentication failed'')))"
proof (intro conjI allI impI)
  assume "json_body r = None"
  with assms show "fst (authenticate srv c w) =
              Inl (SDKError \<lparr>message = JStr ''Authentication failed'',
                             statusCode = Some (status r),
                             code = Some (JStr ''AUTH_FAILED'')\<rparr>)"
    by (simp add: authenticate_def fetch_def error_body_def get_prop_def js_or_def throw_string)
next
  fix j
  assume "json_body r = Some j \<and> j \<noteq> JNull \<and> (\<forall>kvs. j \<noteq> JObj kvs)"
  with assms show "fst (authenticate srv c w) =
              Inl (SDKError \<lparr>message = JStr ''Authentication failed'',
                             statusCode = Some (status r),
                             code = Some (JStr ''AUTH_FAILED'')\<rparr>)"
    by (cases j)
      (simp_all add: authenticate_def fetch_def error_body_def get_prop_def js_or_def throw_string)
next
  fix kvs
  assume body: "json_body r = Some (JObj kvs)
              \<and> (map_of kvs ''message'' = None \<or> (\<exists>s. map_of kvs ''message'' = Some (JStr s)))"
  then consider "map_of kvs ''message'' = None"
    | s where "map_of kvs ''message'' = Some (JStr s)"
    by auto
  then show "\<exists>e. fst (authenticate srv c w) = Inl (SDKError e)
               \<and> statusCode e = Some (status r)
               \<and> code e = Some (JStr ''AUTH_FAILED'')
               \<and> (\<forall>s. map_of kvs ''message'' = Some (JStr s) \<and> s \<noteq> [] \<longrightarrow> message e = JStr s)
               \<and> (map_of kvs ''message'' = None \<or> map_of kvs ''message'' = Some (JStr [])
                    \<longrightarrow> message e = JStr ''Authentication failed'')"
  proof cases
    case 1
    with assms body show ?thesis
      by (simp add: authenticate_def fetch_def error_body_def get_prop_def js_or_def throw_string)
  next
    case 2
    with assms body show ?thesis
      by (simp add: authenticate_def fetch_def error_body_def get_prop_def js_or_def truthy_def
          throw_string)
  qed
qed

theorem authenticate_failure_error_witness:
  "refusing_server (calls sample_world) (token_request stale_client) = (Resolved refused, 30)
   \<and> \<not> ok refused
   \<and> json_body refused = Some (JObj [(''message'', JStr ''bad credentials''),
                                       (''code'', JStr ''invalid_client'')])
   \<and> fst (authenticate refusing_server stale_client sample_world) =
       Inl (SDKError \<lparr>message = JStr ''bad credentials'', statusCode = Some 401,
                      code = Some (JStr ''AUTH_FAILED'')\<rparr>)"
proof -
  have reply: "refusing_server (calls sample_world) (token_request stale_client) =
                 (Resolved refused, 30)"
    by (simp add: refusing_server_def)
  have no: "\<not> ok refused"
    and body: "json_body refused = Some (JObj [(''message'', JStr ''bad credentials''),
                                               (''code'', JStr ''invalid_client'')])"
    and st: "status refused = 401"
    by (simp_all add: refused_def ok_def)
  from authenticate_failure_error [of refusing_server sample_world stale_client refused 30]
    reply no body
  obtain e where "fst (authenticate refusing_server stale_client sample_world) = Inl (SDKError e)"
    and "statusCode e = Some 401" and "code e = Some (JStr ''AUTH_FAILED'')"
    and "message e = JStr ''bad credentials''"
    by (auto simp: st)
  then have "fst (authenticate refusing_server stale_client sample_world) =
       Inl (SDKError \<lparr>message = JStr ''bad credentials'', statusCode = Some 401,
                      code = Some (JStr ''AUTH_FAILED'')\<rparr>)"
    by (cases e) simp
  with reply no body show ?thesis
    by simp
qed

section \<open>Construction and the base URL\<close>

text \<open>
  The check of the credentials and what a successful construction keeps: the
  constructor fails exactly when \<open>clientId\<close> is missing or empty or \<open>clientSecret\<close> is
  missing or empty, with the SDK's own error, no status and no code; otherwise the
  client holds no token, keeps the credentials and the base URL, has the environment
  production when the configuration leaves it out, and keeps an environment that was
  given.
\<close>

lemma constructor_requires_credentials:
  "((\<exists>e. constructor cfg = Inl e) \<longleftrightarrow>
      (clientId cfg = None \<or> clientId cfg = Some [] \<or>
       clientSecret cfg = None \<or> clientSecret cfg = Some []))
   \<and> (\<forall>e. constructor cfg = Inl e \<longrightarrow>
          e = SDKError \<lparr>message = JStr ''clientId and clientSecret are required'',
                        statusCode = None, code = None\<rparr>)
   \<and> (\<forall>c. constructor cfg = Inr c \<longrightarrow>
          token c = None \<and>
          clientId (config c) = clientId cfg \<and>
          clientSecret (config c) = clientSecret cfg \<and>
          baseUrl (config c) = baseUrl cfg \<and>
          (environment cfg = Absent \<longrightarrow> environment (config c) = Value Production) \<and>
          (\<forall>e. environment cfg = Value e \<longrightarrow> environment (config c) = Value e))"
  by (auto simp: constructor_def truthy_string_def throw_string
      split: option.splits property.splits)

text \<open>
  Claim C6 says that construction normalizes the environment to production when it is
  unspecified. The code does so only for a configuration that leaves the property
  out. For the configuration
  \<^verbatim>\<open>{clientId: 'id', clientSecret: 'secret', environment: undefined}\<close>, which the type
  \<^verbatim>\<open>environment?: 'production' | 'sandbox'\<close> admits, the spread
  \<^verbatim>\<open>{environment: 'production', ...config}\<close> copies the written property over the
  default: construction succeeds, the environment of the client is
  \<^verbatim>\<open>undefined\<close>, not production, and \<open>getBaseUrl\<close> gives the sandbox host.
\<close>

theorem constructor_undefined_environment:
  "constructor undefined_environment_config =
     Inr \<lparr>config = undefined_environment_config, token = None\<rparr>
   \<and> environment undefined_environment_config = Undefined
   \<and> environment (config \<lparr>config = undefined_environment_config, token = None\<rparr>)
       \<noteq> Value Production
   \<and> getBaseUrl \<lparr>config = undefined_environment_config, token = None\<rparr>
       = ''https://sandbox-api.sintezy.com''"
  by (simp add: constructor_def getBaseUrl_def undefined_environment_config_def
      truthy_string_def)

theorem constructor_undefined_environment_witness:
  "getBaseUrl \<lparr>config = undefined_environment_config, token = None\<rparr>
     \<noteq> ''https://api.sintezy.com''"
  using constructor_undefined_environment by simp

text \<open>
  Claim C7, as stated, fails: a base URL that is set to the empty string is not
  returned. The constructor accepts the configuration, and \<open>getBaseUrl\<close> falls through
  to the URL of the environment, here the sandbox.
\<close>

theorem getBaseUrl_empty_override_counterexample:
  "constructor empty_base_config =
     Inr \<lparr>config = empty_base_config, token = None\<rparr>
   \<and> baseUrl empty_base_config = Some []
   \<and> getBaseUrl \<lparr>config = empty_base_config, token = None\<rparr> = ''https://sandbox-api.sintezy.com''
   \<and> getBaseUrl \<lparr>config = empty_base_config, token = None\<rparr> \<noteq> []"
  by (simp add: constructor_def getBaseUrl_def empty_base_config_def truthy_string_def)

text \<open>
  Claim C7, amended. For every configuration the constructor accepts, \<open>getBaseUrl\<close>
  returns \<open>baseUrl\<close> as it is whenever it is set to a non-empty string, whatever the
  environment; when \<open>baseUrl\<close> is unset or empty it returns
  \<^verbatim>\<open>https://api.sintezy.com\<close> for the environment production or an environment left
  out, and \<^verbatim>\<open>https://sandbox-api.sintezy.com\<close> for the environment sandbox. It is a
  function of the client to a string: no request, no change of state.
\<close>

theorem getBaseUrl_resolution:
  assumes "constructor cfg = Inr c"
  shows "(\<forall>u. baseUrl cfg = Some u \<and> u \<noteq> [] \<longrightarrow> getBaseUrl c = u)
       \<and> ((baseUrl cfg = None \<or> baseUrl cfg = Some []) \<and>
          (environment cfg = Value Production \<or> environment cfg = Absent)
            \<longrightarrow> getBaseUrl c = ''https://api.sintezy.com'')
       \<and> ((baseUrl cfg = None \<or> baseUrl cfg = Some []) \<and> environment cfg = Value Sandbox
            \<longrightarrow> getBaseUrl c = ''https://sandbox-api.sintezy.com'')"
  using assms
  by (auto simp: constructor_def getBaseUrl_def truthy_string_def split: if_splits)

theorem getBaseUrl_resolution_witness:
  "constructor sample_config = Inr sample_client
   \<and> baseUrl sample_config = None \<and> environment sample_config = Absent
   \<and> getBaseUrl sample_client = ''https://api.sintezy.com''
   \<and> constructor (sample_config\<lparr>environment := Value Sandbox\<rparr>)
       = Inr (sample_client\<lparr>config := (config sample_client)\<lparr>environment := Value Sandbox\<rparr>\<rparr>)
   \<and> getBaseUrl (sample_client\<lparr>config := (config sample_client)\<lparr>environment := Value Sandbox\<rparr>\<rparr>)
       = ''https://sandbox-api.sintezy.com''
   \<and> constructor (sample_config\<lparr>environment := Value Sandbox,
                                  baseUrl := Some ''http://localhost:3000''\<rparr>)
       = Inr (sample_client\<lparr>config := (config sample_client)
                \<lparr>environment := Value Sandbox, baseUrl := Some ''http://localhost:3000''\<rparr>\<rparr>)
   \<and> getBaseUrl (sample_client\<lparr>config := (config sample_client)
                \<lparr>environment := Value Sandbox, baseUrl := Some ''http://localhost:3000''\<rparr>\<rparr>)
       = ''http://localhost:3000''"
  using getBaseUrl_resolution [of sample_config sample_client]
    getBaseUrl_resolution [of "sample_config\<lparr>environment := Value Sandbox\<rparr>"
      "sample_client\<lparr>config := (config sample_client)\<lparr>environment := Value Sandbox\<rparr>\<rparr>"]
    getBaseUrl_resolution [of "sample_config\<lparr>environment := Value Sandbox,
                                             baseUrl := Some ''http://localhost:3000''\<rparr>"
      "sample_client\<lparr>config := (config sample_client)
         \<lparr>environment := Value Sandbox, baseUrl := Some ''http://localhost:3000''\<rparr>\<rparr>"]
  by (simp add: constructor_def truthy_string_def sample_config_def sample_client_def)

section \<open>The authenticated call \<open>request\<close>\<close>

text \<open>
  Claim C5, as stated, fails: a message that the server supplies as the empty string is
  not the message of the error. After a successful guard, an endpoint that answers 500
  with the body \<^verbatim>\<open>{"message": ""}\<close> to \<^verbatim>\<open>GET /sdk/documents/d1\<close> yields an
  error whose message is \<open>Request failed: GET /sdk/documents/d1\<close>.
\<close>

theorem request_blank_message_counterexample:
  "blank_server [token_request sample_client]
       (api_request holding_client sample_token ''GET'' ''/sdk/documents/d1'' None) =
     (Resolved \<lparr>status = 500, json_body = Some (JObj [(''message'', JStr [])])\<rparr>, 5)
   \<and> fst (request blank_server sample_client sample_world ''GET'' ''/sdk/documents/d1'' None) =
       Inl (SDKError \<lparr>message = JStr ''Request failed: GET /sdk/documents/d1'',
                      statusCode = Some 500, code = None\<rparr>)
   \<and> JStr ''Request failed: GET /sdk/documents/d1'' \<noteq> JStr []"
proof -
  have reply: "blank_server [token_request sample_client]
       (api_request holding_client sample_token ''GET'' ''/sdk/documents/d1'' None) =
     (Resolved blank_message, 5)"
    by (simp add: blank_server_def api_request_def)
  have "fst (request blank_server sample_client sample_world ''GET'' ''/sdk/documents/d1'' None) =
       Inl (SDKError \<lparr>message = JStr ''Request failed: GET /sdk/documents/d1'',
                      statusCode = Some 500, code = None\<rparr>)"
    using request_after_guard [OF ensureAuthenticated_blank, of "''GET''" "''/sdk/documents/d1''" None
        blank_message 5] reply
    by (simp add: blank_message_def ok_def error_body_def get_prop_def js_or_def truthy_def
        throw_string Let_def)
  with reply show ?thesis
    by (simp add: blank_message_def)
qed

text \<open>
  Claim C5, amended. For every non-2xx answer to \<open>request(method, path, body)\<close> whose
  body is absent, malformed, a JSON value that is neither \<^verbatim>\<open>null\<close> nor an object,
  or an object whose \<open>message\<close> is missing or a string, the error raised carries the
  HTTP status. An absent or malformed body is read as the empty object: the message is
  then \<open>Request failed: {method} {path}\<close> and there is no code, as for a body that is
  no object. When the body is an object, the message is the server's message if that
  is a non-empty string, and \<open>Request failed: {method} {path}\<close> if the message is
  missing or empty; the code is the server's code when there is one and is absent
  otherwise. An HTTP 404 with the body \<^verbatim>\<open>{"message":"not found","code":"NOT_FOUND"}\<close>
  yields status 404, message \<open>not found\<close> and code \<open>NOT_FOUND\<close>. (A body that is
  \<^verbatim>\<open>null\<close> and a message that is not a string are left out: reading a property of
  \<^verbatim>\<open>null\<close> throws, and a message of another type is converted to a string, which
  can throw.)
\<close>

theorem request_failure_error:
  assumes "ensureAuthenticated srv c w = (Inr (Some t), c1, w1)"
    and "srv (calls w1) (api_request c1 t meth path payload) = (Resolved r, dt)"
    and "\<not> ok r"
  shows "(json_body r = None \<longrightarrow>
            fst (request srv c w meth path payload) =
              Inl (SDKError \<lparr>message = JStr (''Request failed: '' @ meth @ '' '' @ path),
                             statusCode = Some (status r), code = None\<rparr>))
       \<and> (\<forall>j. json_body r = Some j \<and> j \<noteq> JNull \<and> (\<forall>kvs. j \<noteq> JObj kvs) \<longrightarrow>
            fst (request srv c w meth path payload) =
              Inl (SDKError \<lparr>message = JStr (''Request failed: '' @ meth @ '' '' @ path),
                             statusCode = Some (status r), code = None\<rparr>))
       \<and> (\<forall>kvs. json_body r = Some (JObj kvs)
              \<and> (map_of kvs ''message'' = None \<or> (\<exists>s. map_of kvs ''message'' = Some (JStr s)))
            \<longrightarrow>
            (\<exists>e. fst (request srv c w meth path payload) = Inl (SDKError e)
               \<and> statusCode e = Some (status r)
               \<and> code e = map_of kvs ''code''
               \<and> (\<forall>s. map_of kvs ''message'' = Some (JStr s) \<and> s \<noteq> [] \<longrightarrow> message e = JStr s)
               \<and> (map_of kvs ''message'' = None \<or> map_of kvs ''message'' = Some (JStr [])
                    \<longrightarrow> message e = JStr (''Request failed: '' @ meth @ '' '' @ path))))"
proof -
  note run = request_after_guard [OF assms(1) assms(2)]
  have absent: "json_body r = None \<longrightarrow>
            fst (request srv c w meth path payload) =
              Inl (SDKError \<lparr>message = JStr (''Request failed: '' @ meth @ '' '' @ path),
                             statusCode = Some (status r), code = None\<rparr>)"
    using run assms(3)
    by (simp add: Let_def error_body_def get_prop_def js_or_def throw_string)
  have other: "\<forall>j. json_body r = Some j \<and> j \<noteq> JNull \<and> (\<forall>kvs. j \<noteq> JObj kvs) \<longrightarrow>
            fst (request srv c w meth path payload) =
              Inl (SDKError \<lparr>message = JStr (''Request failed: '' @ meth @ '' '' @ path),
                             statusCode = Some (status r), code = None\<rparr>)"
  proof (intro allI impI)
    fix j
    assume "json_body r = Some j \<and> j \<noteq> JNull \<and> (\<forall>kvs. j \<noteq> JObj kvs)"
    with run assms(3) show "fst (request srv c w meth path payload) =
              Inl (SDKError \<lparr>message = JStr (''Request failed: '' @ meth @ '' '' @ path),
                             statusCode = Some (status r), code = None\<rparr>)"
      by (cases j) (simp_all add: Let_def error_body_def get_prop_def js_or_def throw_string)
  qed
  have object: "\<forall>kvs. json_body r = Some (JObj kvs)
              \<and> (map_of kvs ''message'' = None \<or> (\<exists>s. map_of kvs ''message'' = Some (JStr s)))
            \<longrightarrow>
            (\<exists>e. fst (request srv c w meth path payload) = Inl (SDKError e)
               \<and> statusCode e = Some (status r)
               \<and> code e = map_of kvs ''code''
               \<and> (\<forall>s. map_of kvs ''message'' = Some (JStr s) \<and> s \<noteq> [] \<longrightarrow> message e = JStr s)
               \<and> (map_of kvs ''message'' = None \<or> map_of kvs ''message'' = Some (JStr [])
                    \<longrightarrow> message e = JStr (''Request failed: '' @ meth @ '' '' @ path)))"
  proof (intro allI impI)
    fix kvs
    assume body: "json_body r = Some (JObj kvs)
              \<and> (map_of kvs ''message'' = None \<or> (\<exists>s. map_of kvs ''message'' = Some (JStr s)))"
    then consider "map_of kvs ''message'' = None"
      | s where "map_of kvs ''message'' = Some (JStr s)"
      by auto
    then show "\<exists>e. fst (request srv c w meth path payload) = Inl (SDKError e)
               \<and> statusCode e = Some (status r)
               \<and> code e = map_of kvs ''code''
               \<and> (\<forall>s. map_of kvs ''message'' = Some (JStr s) \<and> s \<noteq> [] \<longrightarrow> message e = JStr s)
               \<and> (map_of kvs ''message'' = None \<or> map_of kvs ''message'' = Some (JStr [])
                    \<longrightarrow> message e = JStr (''Request failed: '' @ meth @ '' '' @ path))"
    proof cases
      case 1
      with run assms(3) body show ?thesis
        by (simp add: Let_def error_body_def get_prop_def js_or_def throw_string)
    next
      case 2
      with run assms(3) body show ?thesis
        by (simp add: Let_def error_body_def get_prop_def js_or_def truthy_def throw_string)
    qed
  qed
  from absent other object show ?thesis
    by (intro conjI)
qed

theorem request_failure_error_witness:
  "ensureAuthenticated sample_server sample_client sample_world =
     (Inr (Some sample_token), holding_client,
      \<lparr>clock = 1700000000120, calls = [token_request sample_client]\<rparr>)
   \<and> sample_server [token_request sample_client]
        (api_request holding_client sample_token ''GET'' ''/sdk/appointments/zz'' None) =
       (Resolved \<lparr>status = 404,
                   json_body = Some (JObj [(''message'', JStr ''not found''),
                                           (''code'', JStr ''NOT_FOUND'')])\<rparr>, 5)
   \<and> fst (request sample_server sample_client sample_world ''GET'' ''/sdk/appointments/zz'' None) =
       Inl (SDKError \<lparr>message = JStr ''not found'', statusCode = Some 404,
                      code = Some (JStr ''NOT_FOUND'')\<rparr>)"
proof -
  have reply: "sample_server [token_request sample_client]
        (api_request holding_client sample_token ''GET'' ''/sdk/appointments/zz'' None) =
       (Resolved not_found, 5)"
    by (simp add: sample_server_def api_request_def)
  have refused: "\<not> ok not_found"
    by (simp add: ok_def not_found_def)
  have guard: "ensureAuthenticated sample_server sample_client sample_world =
     (Inr (Some sample_token), holding_client,
      \<lparr>clock = 1700000000120, calls = [token_request sample_client]\<rparr>)"
    by (rule ensureAuthenticated_sample)
  have "calls \<lparr>clock = 1700000000120, calls = [token_request sample_client]\<rparr>
          = [token_request sample_client]"
    by simp
  with reply have reply':
    "sample_server (calls \<lparr>clock = 1700000000120, calls = [token_request sample_client]\<rparr>)
        (api_request holding_client sample_token ''GET'' ''/sdk/appointments/zz'' None) =
       (Resolved not_found, 5)"
    by simp
  from request_failure_error [OF guard reply' refused]
  obtain e where e: "fst (request sample_server sample_client sample_world ''GET''
                            ''/sdk/appointments/zz'' None) = Inl (SDKError e)"
      "statusCode e = Some 404" "code e = Some (JStr ''NOT_FOUND'')"
      "message e = JStr ''not found''"
    by (auto simp: not_found_def)
  then have "e = \<lparr>message = JStr ''not found'', statusCode = Some 404,
                   code = Some (JStr ''NOT_FOUND'')\<rparr>"
    by (cases e) simp
  with e(1) reply guard show ?thesis
    by (simp add: not_found_def)
qed

text \<open>
  Claim C10. In \<open>authenticate\<close> and in \<open>request\<close> alike, an error body that is an object
  whose \<open>message\<close> is the empty string gives the error the default message,
  \<open>Authentication failed\<close> and \<open>Request failed: {method} {path}\<close>, as a missing message
  does, and never the empty string.
\<close>

theorem empty_message_is_defaulted:
  "(srv (calls w) (token_request c) = (Resolved r, dt) \<and> \<not> ok r
      \<and> json_body r = Some (JObj kvs) \<and> map_of kvs ''message'' = Some (JStr [])
    \<longrightarrow> fst (authenticate srv c w) =
          Inl (SDKError \<lparr>message = JStr ''Authentication failed'',
                         statusCode = Some (status r),
                         code = Some (JStr ''AUTH_FAILED'')\<rparr>))
   \<and> (ensureAuthenticated srv' c' w' = (Inr (Some t), c1, w1)
      \<and> srv' (calls w1) (api_request c1 t meth path payload) = (Resolved r', dt') \<and> \<not> ok r'
      \<and> json_body r' = Some (JObj kvs') \<and> map_of kvs' ''message'' = Some (JStr [])
    \<longrightarrow> fst (request srv' c' w' meth path payload) =
          Inl (SDKError \<lparr>message = JStr (''Request failed: '' @ meth @ '' '' @ path),
                         statusCode = Some (status r'),
                         code = map_of kvs' ''code''\<rparr>))"
proof (intro conjI impI)
  assume "srv (calls w) (token_request c) = (Resolved r, dt) \<and> \<not> ok r
      \<and> json_body r = Some (JObj kvs) \<and> map_of kvs ''message'' = Some (JStr [])"
  then show "fst (authenticate srv c w) =
          Inl (SDKError \<lparr>message = JStr ''Authentication failed'',
                         statusCode = Some (status r),
                         code = Some (JStr ''AUTH_FAILED'')\<rparr>)"
    by (simp add: authenticate_def fetch_def error_body_def get_prop_def js_or_def truthy_def
        throw_string)
next
  assume h: "ensureAuthenticated srv' c' w' = (Inr (Some t), c1, w1)
      \<and> srv' (calls w1) (api_request c1 t meth path payload) = (Resolved r', dt') \<and> \<not> ok r'
      \<and> json_body r' = Some (JObj kvs') \<and> map_of kvs' ''message'' = Some (JStr [])"
  then have "ensureAuthenticated srv' c' w' = (Inr (Some t), c1, w1)"
    and "srv' (calls w1) (api_request c1 t meth path payload) = (Resolved r', dt')"
    by simp_all
  from request_after_guard [OF this] h
  show "fst (request srv' c' w' meth path payload) =
          Inl (SDKError \<lparr>message = JStr (''Request failed: '' @ meth @ '' '' @ path),
                         statusCode = Some (status r'),
                         code = map_of kvs' ''code''\<rparr>)"
    by (simp add: Let_def error_body_def get_prop_def js_or_def truthy_def throw_string)
qed

theorem empty_message_is_defaulted_witness:
  "blank_refusing_server (calls sample_world) (token_request sample_client) =
     (Resolved \<lparr>status = 500, json_body = Some (JObj [(''message'', JStr [])])\<rparr>, 5)
   \<and> fst (authenticate blank_refusing_server sample_client sample_world) =
       Inl (SDKError \<lparr>message = JStr ''Authentication failed'', statusCode = Some 500,
                      code = Some (JStr ''AUTH_FAILED'')\<rparr>)
   \<and> ensureAuthenticated blank_server sample_client sample_world =
       (Inr (Some sample_token), holding_client,
        \<lparr>clock = 1700000000120, calls = [token_request sample_client]\<rparr>)
   \<and> blank_server [token_request sample_client]
        (api_request holding_client sample_token ''POST'' ''/sdk/appointments'' (Some sample_params)) =
       (Resolved \<lparr>status = 500, json_body = Some (JObj [(''message'', JStr [])])\<rparr>, 5)
   \<and> fst (request blank_server sample_client sample_world ''POST'' ''/sdk/appointments''
             (Some sample_params)) =
       Inl (SDKError \<lparr>message = JStr ''Request failed: POST /sdk/appointments'',
                      statusCode = Some 500, code = None\<rparr>)"
proof -
  let ?w1 = "\<lparr>clock = 1700000000120, calls = [token_request sample_client]\<rparr>"
  let ?rq = "api_request holding_client sample_token ''POST'' ''/sdk/appointments''
               (Some sample_params)"
  have a: "blank_refusing_server (calls sample_world) (token_request sample_client) =
             (Resolved blank_message, 5)"
    by (simp add: blank_refusing_server_def)
  have b: "\<not> ok blank_message"
    and c: "json_body blank_message = Some (JObj [(''message'', JStr [])])"
    and d: "map_of [(''message'', JStr [])] ''message'' = Some (JStr [])"
    and s: "status blank_message = 500"
    by (simp_all add: blank_message_def ok_def)
  have g: "ensureAuthenticated blank_server sample_client sample_world =
             (Inr (Some sample_token), holding_client, ?w1)"
    by (rule ensureAuthenticated_blank)
  have e: "blank_server (calls ?w1) ?rq = (Resolved blank_message, 5)"
    by (simp add: blank_server_def api_request_def getBaseUrl_holding)
  have n: "map_of [(''message'', JStr [])] ''code'' = None"
    by simp
  from empty_message_is_defaulted [where srv = blank_refusing_server and w = sample_world
      and c = sample_client and r = blank_message and dt = 5
      and kvs = "[(''message'', JStr [])]"
      and srv' = blank_server and c' = sample_client and w' = sample_world
      and t = sample_token and ?c1.0 = holding_client and ?w1.0 = ?w1
      and meth = "''POST''" and path = "''/sdk/appointments''"
      and payload = "Some sample_params" and r' = blank_message and dt' = 5
      and kvs' = "[(''message'', JStr [])]"]
    a b c d g e
  have "fst (authenticate blank_refusing_server sample_client sample_world) =
          Inl (SDKError \<lparr>message = JStr ''Authentication failed'', statusCode = Some 500,
                         code = Some (JStr ''AUTH_FAILED'')\<rparr>)
      \<and> fst (request blank_server sample_client sample_world ''POST'' ''/sdk/appointments''
                (Some sample_params)) =
          Inl (SDKError \<lparr>message = JStr ''Request failed: POST /sdk/appointments'',
                         statusCode = Some 500, code = None\<rparr>)"
    by (simp add: s n)
  with a g e show ?thesis
    by (simp add: blank_message_def)
qed

section \<open>End to end: \<open>createAppointment\<close> on a fresh client\<close>

text \<open>
  Claim C8. On a client fresh from the constructor, when the token endpoint grants a
  token and \<^verbatim>\<open>POST /sdk/appointments\<close> answers with a JSON body,
  \<open>createAppointment\<close> issues exactly two requests, the token request and then the
  appointment request, which carries the header \<open>Authorization: Bearer\<close> with the
  granted token and the parameters as its JSON body, and it returns the answer's body
  as it is. In the scenario the token is \<open>abc\<close>, the parameters are
  \<^verbatim>\<open>{userEmail: "d@x.com"}\<close> and the appointment is the one with id \<open>a1\<close>.
\<close>

theorem createAppointment_end_to_end:
  assumes "constructor cfg = Inr c"
    and "srv (calls w) (token_request c) = (Resolved r1, dt1)"
    and "ok r1"
    and "token_body r1 = Some g"
    and "srv (calls w @ [token_request c])
           \<lparr>url = getBaseUrl c @ ''/sdk/appointments'', http_method = ''POST'',
            headers = [(''Content-Type'', ''application/json''),
                       (''Authorization'', ''Bearer '' @ access_token g)],
            body = Some (JObj ps)\<rparr> = (Resolved r2, dt2)"
    and "ok r2"
    and "json_body r2 = Some appointment"
  shows "\<exists>c' w'. createAppointment srv c w (JObj ps) = (Inr appointment, c', w')
           \<and> calls w' = calls w @
                [token_request c,
                 \<lparr>url = getBaseUrl c @ ''/sdk/appointments'', http_method = ''POST'',
                  headers = [(''Content-Type'', ''application/json''),
                             (''Authorization'', ''Bearer '' @ access_token g)],
                  body = Some (JObj ps)\<rparr>]
           \<and> clock w' = clock w + int dt1 + int dt2
           \<and> config c' = config c
           \<and> (\<exists>tk. token c' = Some tk \<and> accessToken tk = access_token g)"
proof -
  let ?tk = "\<lparr>accessToken = access_token g, expiresIn = expires_in g,
              tokenType = token_type g,
              expiresAt = clock w + int dt1 + expires_in g * 1000\<rparr>"
  let ?c1 = "c\<lparr>token := Some ?tk\<rparr>"
  let ?w1 = "\<lparr>clock = clock w + int dt1, calls = calls w @ [token_request c]\<rparr>"
  from assms(1) have fresh: "token c = None"
    by (auto simp: constructor_def split: if_splits)
  then have "\<not> isAuthenticated c (clock w)"
    by (simp add: isAuthenticated_def)
  moreover have "authenticate srv c w = (Inr ?tk, ?c1, ?w1)"
    using authenticate_on_grant [of srv w c r1 dt1 g] assms(2-4) by simp
  ultimately have guard: "ensureAuthenticated srv c w = (Inr (Some ?tk), ?c1, ?w1)"
    by (simp add: ensureAuthenticated_def)
  have rq: "api_request ?c1 ?tk ''POST'' ''/sdk/appointments'' (Some (JObj ps)) =
          \<lparr>url = getBaseUrl c @ ''/sdk/appointments'', http_method = ''POST'',
            headers = [(''Content-Type'', ''application/json''),
                       (''Authorization'', ''Bearer '' @ access_token g)],
            body = Some (JObj ps)\<rparr>"
    by (simp add: api_request_def getBaseUrl_def truthy_def)
  with assms(5) have "srv (calls ?w1) (api_request ?c1 ?tk ''POST'' ''/sdk/appointments''
                         (Some (JObj ps))) = (Resolved r2, dt2)"
    by simp
  from request_after_guard [OF guard this] assms(6,7) rq
  have "createAppointment srv c w (JObj ps) =
          (Inr appointment, ?c1,
           \<lparr>clock = clock w + int dt1 + int dt2,
            calls = calls w @ [token_request c] @
              [\<lparr>url = getBaseUrl c @ ''/sdk/appointments'', http_method = ''POST'',
                headers = [(''Content-Type'', ''application/json''),
                           (''Authorization'', ''Bearer '' @ access_token g)],
                body = Some (JObj ps)\<rparr>]\<rparr>)"
    by (simp add: createAppointment_def Let_def)
  then show ?thesis
    by simp
qed

theorem createAppointment_end_to_end_witness:
  "constructor sample_config = Inr sample_client
   \<and> token sample_client = None
   \<and> calls sample_world = []
   \<and> createAppointment sample_server sample_client sample_world
        (JObj [(''userEmail'', JStr ''d@x.com'')]) =
       (Inr (JObj [(''id'', JStr ''a1''), (''secureId'', JStr ''s1''), (''userId'', JStr ''u1''),
                   (''status'', JStr ''pending''),
                   (''createdAt'', JStr ''2024-01-01T00:00:00Z'')]),
        holding_client,
        \<lparr>clock = 1700000000200,
         calls = [\<lparr>url = ''https://api.sintezy.com/oauth/token'', http_method = ''POST'',
                   headers = [(''Content-Type'', ''application/json'')],
                   body = Some (JObj [(''grant_type'', JStr ''client_credentials''),
                                      (''client_id'', JStr ''id''),
                                      (''client_secret'', JStr ''secret'')])\<rparr>,
                  \<lparr>url = ''https://api.sintezy.com/sdk/appointments'', http_method = ''POST'',
                   headers = [(''Content-Type'', ''application/json''),
                              (''Authorization'', ''Bearer abc'')],
                   body = Some (JObj [(''userEmail'', JStr ''d@x.com'')])\<rparr>]\<rparr>)"
proof -
  let ?rq = "\<lparr>url = getBaseUrl sample_client @ ''/sdk/appointments'', http_method = ''POST'',
              headers = [(''Content-Type'', ''application/json''),
                         (''Authorization'', ''Bearer '' @ access_token sample_grant)],
              body = Some (JObj [(''userEmail'', JStr ''d@x.com'')])\<rparr>"
  let ?r2 = "\<lparr>status = 200, json_body = Some sample_appointment\<rparr>"
  have built: "constructor sample_config = Inr sample_client"
    by (simp add: constructor_def truthy_string_def sample_config_def sample_client_def)
  have base: "getBaseUrl sample_client = ''https://api.sintezy.com''"
    by (simp add: getBaseUrl_def sample_client_def truthy_string_def)
  have first: "sample_server (calls sample_world) (token_request sample_client) =
                 (Resolved granted, 120)"
    by (simp add: sample_server_def token_request_sample)
  have second: "sample_server (calls sample_world @ [token_request sample_client]) ?rq =
                 (Resolved ?r2, 80)"
    by (simp add: sample_server_def base)
  have oks: "ok ?r2" "json_body ?r2 = Some sample_appointment"
    by (simp_all add: ok_def)
  from createAppointment_end_to_end [of sample_config sample_client sample_server sample_world
      granted 120 sample_grant "[(''userEmail'', JStr ''d@x.com'')]" ?r2 80 sample_appointment]
    built first granted_grant second oks
  obtain c' w' where run:
    "createAppointment sample_server sample_client sample_world
       (JObj [(''userEmail'', JStr ''d@x.com'')]) = (Inr sample_appointment, c', w')"
    "calls w' = calls sample_world @ [token_request sample_client, ?rq]"
    "clock w' = clock sample_world + int 120 + int 80"
    "config c' = config sample_client"
    by blast
  have direct: "createAppointment sample_server sample_client sample_world
       (JObj [(''userEmail'', JStr ''d@x.com'')]) =
       (Inr sample_appointment, holding_client,
        \<lparr>clock = 1700000000200, calls = [token_request sample_client, ?rq]\<rparr>)"
    using request_after_guard [OF ensureAuthenticated_sample, of "''POST''" "''/sdk/appointments''"
        "Some (JObj [(''userEmail'', JStr ''d@x.com'')])" ?r2 80]
    by (simp add: createAppointment_def sample_server_def api_request_def getBaseUrl_holding
        truthy_def ok_def Let_def sample_token_def sample_grant_def base)
  with run(1) have same: "c' = holding_client"
      "w' = \<lparr>clock = 1700000000200, calls = [token_request sample_client, ?rq]\<rparr>"
    by simp_all
  have fresh: "token sample_client = None" "calls sample_world = []"
    by (simp_all add: sample_client_def sample_world_def)
  from run(1) same have "createAppointment sample_server sample_client sample_world
       (JObj [(''userEmail'', JStr ''d@x.com'')]) =
       (Inr sample_appointment, holding_client,
        \<lparr>clock = 1700000000200, calls = [token_request sample_client, ?rq]\<rparr>)"
    by simp
  then have "createAppointment sample_server sample_client sample_world
        (JObj [(''userEmail'', JStr ''d@x.com'')]) =
       (Inr (JObj [(''id'', JStr ''a1''), (''secureId'', JStr ''s1''), (''userId'', JStr ''u1''),
                   (''status'', JStr ''pending''),
                   (''createdAt'', JStr ''2024-01-01T00:00:00Z'')]),
        holding_client,
        \<lparr>clock = 1700000000200,
         calls = [\<lparr>url = ''https://api.sintezy.com/oauth/token'', http_method = ''POST'',
                   headers = [(''Content-Type'', ''application/json'')],
                   body = Some (JObj [(''grant_type'', JStr ''client_credentials''),
                                      (''client_id'', JStr ''id''),
                                      (''client_secret'', JStr ''secret'')])\<rparr>,
                  \<lparr>url = ''https://api.sintezy.com/sdk/appointments'', http_method = ''POST'',
                   headers = [(''Content-Type'', ''application/json''),
                              (''Authorization'', ''Bearer abc'')],
                   body = Some (JObj [(''userEmail'', JStr ''d@x.com'')])\<rparr>]\<rparr>)"
    by (simp add: token_request_sample base sample_appointment_def sample_grant_def)
  with built fresh show ?thesis
    by simp
qed

end
